theory Spec2Isabelle
  imports Complex_Main
begin

section \<open>Exceptions and wrapped values\<close>

text \<open>
  The exceptions that the unit types of \<^verbatim>\<open>vspreview/core/types.py\<close> raise. A bare
  \<^verbatim>\<open>raise TypeError\<close> carries the empty message.
\<close>

datatype error = ValueError | TypeError string | KeyError string | IndexError
  | ZeroDivisionError | RuntimeError string

text \<open>
  A \<^verbatim>\<open>datetime.timedelta\<close> is an exact count of microseconds.
\<close>

datatype timedelta = Timedelta (total_microseconds: int)

subsection \<open>The four unit types\<close>

record Frame =
  "value" :: int

record FrameInterval =
  "value" :: int

record Time =
  "value" :: timedelta

record TimeInterval =
  "value" :: timedelta

text \<open>
  An instance of one of the four unit classes that derive from
  \<^verbatim>\<open>YAMLObjectWrapper\<close>, and the object its \<^verbatim>\<open>value\<close> slot holds.
\<close>

datatype YAMLObjectWrapper =
    WFrame Frame
  | WFrameInterval FrameInterval
  | WTime Time
  | WTimeInterval TimeInterval

datatype wrapped = IntValue int | TimedeltaValue timedelta

fun value_of :: "YAMLObjectWrapper \<Rightarrow> wrapped" where
  "value_of (WFrame f) = IntValue (Frame.value f)"
| "value_of (WFrameInterval d) = IntValue (FrameInterval.value d)"
| "value_of (WTime t) = TimedeltaValue (Time.value t)"
| "value_of (WTimeInterval d) = TimedeltaValue (TimeInterval.value d)"

text \<open>
  Python's \<^verbatim>\<open>==\<close> and \<^verbatim>\<open>>\<close> on the wrapped objects: an int and a timedelta are
  never equal, and ordering them raises TypeError.
\<close>

fun py_eq :: "wrapped \<Rightarrow> wrapped \<Rightarrow> bool" where
  "py_eq (IntValue a) (IntValue b) = (a = b)"
| "py_eq (TimedeltaValue a) (TimedeltaValue b) = (total_microseconds a = total_microseconds b)"
| "py_eq _ _ = False"

fun py_gt :: "wrapped \<Rightarrow> wrapped \<Rightarrow> error + bool" where
  "py_gt (IntValue a) (IntValue b) = Inr (a > b)"
| "py_gt (TimedeltaValue a) (TimedeltaValue b) =
     Inr (total_microseconds a > total_microseconds b)"
| "py_gt _ _ = Inl (TypeError ''> not supported between instances of int and timedelta'')"

subsection \<open>YAMLObjectWrapper: the comparison operators\<close>

definition wrapper_eq :: "YAMLObjectWrapper \<Rightarrow> YAMLObjectWrapper \<Rightarrow> bool" where
  "wrapper_eq self other = py_eq (value_of self) (value_of other)"

definition wrapper_gt :: "YAMLObjectWrapper \<Rightarrow> YAMLObjectWrapper \<Rightarrow> error + bool" where
  "wrapper_gt self other = py_gt (value_of self) (value_of other)"

definition wrapper_ne :: "YAMLObjectWrapper \<Rightarrow> YAMLObjectWrapper \<Rightarrow> bool" where
  "wrapper_ne self other = (\<not> wrapper_eq self other)"

definition wrapper_le :: "YAMLObjectWrapper \<Rightarrow> YAMLObjectWrapper \<Rightarrow> error + bool" where
  "wrapper_le self other =
     (case wrapper_gt self other of Inl e \<Rightarrow> Inl e | Inr b \<Rightarrow> Inr (\<not> b))"



subsection \<open>Scene and the values of a persisted document\<close>

record Scene =
  start :: Frame
  "end" :: Frame
  label :: string

text \<open>
  Modelled from the spec: the class \<^verbatim>\<open>SceningLists\<close> of \<^verbatim>\<open>vspreview.models\<close>, which
  the spec describes as named ordered collections of Scene. Only its being a type of its
  own matters to the loader.
\<close>

datatype SceningLists = SceningLists "(string \<times> Scene list) list"

datatype pyval =
    PNone
  | PBool bool
  | PInt int
  | PFloat real
  | PStr string
  | PTimedelta timedelta
  | PFrame Frame
  | PFrameInterval FrameInterval
  | PTime Time
  | PTimeInterval TimeInterval
  | PSceningLists SceningLists

text \<open>\<^verbatim>\<open>isinstance\<close>: a bool is an int in Python, and an int is not a float.\<close>

fun isinstance_int :: "pyval \<Rightarrow> bool" where
  "isinstance_int (PInt n) = True"
| "isinstance_int (PBool b) = True"
| "isinstance_int _ = False"

fun isinstance_Frame :: "pyval \<Rightarrow> bool" where
  "isinstance_Frame (PFrame f) = True"
| "isinstance_Frame _ = False"

fun isinstance_Time :: "pyval \<Rightarrow> bool" where
  "isinstance_Time (PTime t) = True"
| "isinstance_Time _ = False"


fun isinstance_float :: "pyval \<Rightarrow> bool" where
  "isinstance_float (PFloat x) = True"
| "isinstance_float _ = False"


section \<open>Frame and FrameInterval\<close>

text \<open>
  \<^verbatim>\<open>Frame.__init__\<close> on an int: the branch that every arithmetic operator goes through
  when it builds its result with \<^verbatim>\<open>Frame(...)\<close>.
\<close>

definition Frame_of_int :: "int \<Rightarrow> error + Frame" where
  "Frame_of_int init_value =
     (if init_value < 0 then Inl ValueError else Inr \<lparr>Frame.value = init_value\<rparr>)"

text \<open>
  \<^verbatim>\<open>Frame.__init__\<close>. The conversion of the current output,
  \<^verbatim>\<open>main_window().current_output.to_frame\<close>, is the parameter \<open>to_frame\<close>.
\<close>

fun Frame_init :: "(Time \<Rightarrow> error + Frame) \<Rightarrow> pyval \<Rightarrow> error + Frame" where
  "Frame_init to_frame (PInt n) = Frame_of_int n"
| "Frame_init to_frame (PBool b) = Frame_of_int (if b then 1 else 0)"
| "Frame_init to_frame (PFrame f) = Inr \<lparr>Frame.value = Frame.value f\<rparr>"
| "Frame_init to_frame (PTime t) =
     (case to_frame t of Inl e \<Rightarrow> Inl e | Inr f \<Rightarrow> Inr \<lparr>Frame.value = Frame.value f\<rparr>)"
| "Frame_init to_frame _ = Inl (TypeError [])"

text \<open>\<^verbatim>\<open>FrameInterval.__init__\<close>: any int is accepted.\<close>

definition FrameInterval_of_int :: "int \<Rightarrow> FrameInterval" where
  "FrameInterval_of_int init_value = \<lparr>FrameInterval.value = init_value\<rparr>"


text \<open>
  \<^verbatim>\<open>Frame.__add__\<close> and \<^verbatim>\<open>Frame.__sub__\<close> build a new object through the constructor;
  \<^verbatim>\<open>self\<close> is not assigned to.
\<close>

definition Frame_add :: "Frame \<Rightarrow> FrameInterval \<Rightarrow> error + Frame" where
  "Frame_add self other = Frame_of_int (Frame.value self + FrameInterval.value other)"

fun Frame_sub :: "Frame \<Rightarrow> YAMLObjectWrapper \<Rightarrow> error + YAMLObjectWrapper" where
  "Frame_sub self (WFrame other) =
     Inr (WFrameInterval (FrameInterval_of_int (Frame.value self - Frame.value other)))"
| "Frame_sub self (WFrameInterval other) =
     (case Frame_of_int (Frame.value self - FrameInterval.value other) of
        Inl e \<Rightarrow> Inl e | Inr f \<Rightarrow> Inr (WFrame f))"
| "Frame_sub self _ = Inl (TypeError [])"

text \<open>
  \<^verbatim>\<open>Frame.__iadd__\<close> and \<^verbatim>\<open>Frame.__isub__\<close> assign to \<^verbatim>\<open>self.value\<close> and return
  \<^verbatim>\<open>self\<close>: the result is the object after the assignment. The constructor is not
  called. Subtracting a timedelta from an int raises TypeError.
\<close>

definition Frame_iadd :: "Frame \<Rightarrow> FrameInterval \<Rightarrow> Frame" where
  "Frame_iadd self other = self\<lparr>Frame.value := Frame.value self + FrameInterval.value other\<rparr>"

definition Frame_isub :: "Frame \<Rightarrow> YAMLObjectWrapper \<Rightarrow> error + Frame" where
  "Frame_isub self other =
     (case value_of other of
        IntValue n \<Rightarrow> Inr (self\<lparr>Frame.value := Frame.value self - n\<rparr>)
      | TimedeltaValue d \<Rightarrow>
          Inl (TypeError ''unsupported operand types for -=: int and timedelta''))"

section \<open>Scene\<close>

text \<open>\<^verbatim>\<open>Scene.__init__\<close>; \<^verbatim>\<open>None\<close> is an argument left out.\<close>

definition Scene_init :: "Frame option \<Rightarrow> Frame option \<Rightarrow> string \<Rightarrow> error + Scene" where
  "Scene_init start_arg end_arg label_arg =
     (case (case (start_arg, end_arg) of
              (Some s, Some e) \<Rightarrow> Inr (s, e)
            | (Some s, None) \<Rightarrow> Inr (s, s)
            | (None, Some e) \<Rightarrow> Inr (e, e)
            | (None, None) \<Rightarrow> Inl ValueError) of
        Inl err \<Rightarrow> Inl err
      | Inr (s, e) \<Rightarrow>
          (case wrapper_gt (WFrame s) (WFrame e) of
             Inl err \<Rightarrow> Inl err
           | Inr swap \<Rightarrow>
               Inr (if swap then \<lparr>start = e, end = s, label = label_arg\<rparr>
                    else \<lparr>start = s, end = e, label = label_arg\<rparr>)))"








section \<open>Floats and timedelta\<close>






section \<open>Time and TimeInterval\<close>







section \<open>Outputs as conversion contexts\<close>


subsection \<open>Output (video)\<close>







subsection \<open>AudioOutput\<close>







section \<open>Construction and loading of outputs\<close>



subsection \<open>AudioOutput.__init__\<close>





subsection \<open>Output.__setstate__\<close>












subsection \<open>Output.__init__\<close>




subsection \<open>Typed lookups\<close>





section \<open>Properties\<close>

subsection \<open>Ordering of frames\<close>



subsection \<open>Construction of frames\<close>

text \<open>
  C2. Frame construction succeeds exactly on its stated domain: for every non-negative
  integer n, Frame(n) is a Frame whose value is n; construction from a negative integer
  fails with ValueError (the range error); construction from a value that is not an int,
  a Frame or a Time fails with TypeError.
\<close>

theorem Frame_init_domain:
  "(0 \<le> n \<longrightarrow> (\<exists>f. Frame_init to_frame (PInt n) = Inr f \<and> Frame.value f = n))
   \<and> (m < 0 \<longrightarrow> Frame_init to_frame (PInt m) = Inl ValueError)
   \<and> (\<not> isinstance_int v \<and> \<not> isinstance_Frame v \<and> \<not> isinstance_Time v
        \<longrightarrow> Frame_init to_frame v = Inl (TypeError []))"
proof (intro conjI impI)
  assume "0 \<le> n"
  then show "\<exists>f. Frame_init to_frame (PInt n) = Inr f \<and> Frame.value f = n"
    by (simp add: Frame_of_int_def)
next
  assume "m < 0"
  then show "Frame_init to_frame (PInt m) = Inl ValueError"
    by (simp add: Frame_of_int_def)
next
  assume "\<not> isinstance_int v \<and> \<not> isinstance_Frame v \<and> \<not> isinstance_Time v"
  then show "Frame_init to_frame v = Inl (TypeError [])"
    by (cases v) simp_all
qed

theorem Frame_init_domain_witness:
  "(\<exists>f. Frame_init (\<lambda>t. Inl ValueError) (PInt 7) = Inr f \<and> Frame.value f = 7)
   \<and> Frame_init (\<lambda>t. Inl ValueError) (PInt (- 1)) = Inl ValueError
   \<and> Frame_init (\<lambda>t. Inl ValueError) (PStr ''7'') = Inl (TypeError [])"
  using Frame_init_domain [of 7 "\<lambda>t. Inl ValueError" "- 1" "PStr ''7''"]
  by simp

subsection \<open>Frame arithmetic\<close>

text \<open>
  C1. For every Frame a (a Frame of the data model: its value is not negative) and every
  FrameInterval d such that a + d is constructible (a.value + d.value >= 0), a + d is a
  Frame and (a + d) - d is a Frame equal to a; and for every pair of Frames a and b, a - b
  is a FrameInterval whose value is the negation of the value of b - a.
\<close>

theorem Frame_add_sub_inverse:
  "(0 \<le> Frame.value a \<and> 0 \<le> Frame.value a + FrameInterval.value d \<longrightarrow>
      (\<exists>s r. Frame_add a d = Inr s \<and> Frame_sub s (WFrameInterval d) = Inr (WFrame r)
         \<and> wrapper_eq (WFrame r) (WFrame a) \<and> r = a))
   \<and> (\<exists>x y. Frame_sub a (WFrame b) = Inr (WFrameInterval x)
         \<and> Frame_sub b (WFrame a) = Inr (WFrameInterval y)
         \<and> FrameInterval.value x = - FrameInterval.value y)"
  by (simp add: Frame_add_def Frame_of_int_def FrameInterval_of_int_def wrapper_eq_def)

theorem Frame_add_sub_inverse_witness:
  "(\<exists>s r. Frame_add \<lparr>Frame.value = 3\<rparr> \<lparr>FrameInterval.value = - 2\<rparr> = Inr s
       \<and> Frame_sub s (WFrameInterval \<lparr>FrameInterval.value = - 2\<rparr>) = Inr (WFrame r)
       \<and> wrapper_eq (WFrame r) (WFrame \<lparr>Frame.value = 3\<rparr>) \<and> r = \<lparr>Frame.value = 3\<rparr>)
   \<and> (\<exists>x y. Frame_sub \<lparr>Frame.value = 3\<rparr> (WFrame \<lparr>Frame.value = 8\<rparr>) = Inr (WFrameInterval x)
       \<and> Frame_sub \<lparr>Frame.value = 8\<rparr> (WFrame \<lparr>Frame.value = 3\<rparr>) = Inr (WFrameInterval y)
       \<and> FrameInterval.value x = - FrameInterval.value y)"
  using Frame_add_sub_inverse
    [of "\<lparr>Frame.value = 3\<rparr>" "\<lparr>FrameInterval.value = - 2\<rparr>" "\<lparr>Frame.value = 8\<rparr>"]
  by simp

text \<open>
  C9. For every Frame a and FrameInterval d with d.value > a.value, a - d raises
  ValueError, because the difference goes through the Frame constructor (and a, which
  \<open>Frame_sub\<close> does not assign to, is as before); a -= d validates nothing: it raises
  nothing and leaves a wrapping the negative integer a.value - d.value.
\<close>

theorem Frame_sub_validates_isub_does_not:
  assumes "FrameInterval.value d > Frame.value a"
  shows "Frame_sub a (WFrameInterval d) = Inl ValueError
    \<and> Frame_isub a (WFrameInterval d)
        = Inr (a\<lparr>Frame.value := Frame.value a - FrameInterval.value d\<rparr>)
    \<and> (\<exists>a'. Frame_isub a (WFrameInterval d) = Inr a'
          \<and> Frame.value a' = Frame.value a - FrameInterval.value d \<and> Frame.value a' < 0)"
  using assms by (simp add: Frame_of_int_def Frame_isub_def)

theorem Frame_sub_validates_isub_does_not_witness:
  "FrameInterval.value \<lparr>FrameInterval.value = 5\<rparr> > Frame.value \<lparr>Frame.value = 2\<rparr>
   \<and> Frame_sub \<lparr>Frame.value = 2\<rparr> (WFrameInterval \<lparr>FrameInterval.value = 5\<rparr>) = Inl ValueError
   \<and> Frame_isub \<lparr>Frame.value = 2\<rparr> (WFrameInterval \<lparr>FrameInterval.value = 5\<rparr>)
       = Inr \<lparr>Frame.value = - 3\<rparr>"
proof -
  have h: "FrameInterval.value \<lparr>FrameInterval.value = 5\<rparr> > Frame.value \<lparr>Frame.value = 2\<rparr>"
    by simp
  show ?thesis
    using h Frame_sub_validates_isub_does_not [OF h] by simp
qed

subsection \<open>Equality across unit types\<close>



subsection \<open>Scenes\<close>

text \<open>
  C3. Every Scene satisfies start <= end after construction: given both endpoints out of
  order the constructor swaps them (Scene(Frame(5), Frame(2), label) has start Frame(2)
  and end Frame(5)); given exactly one endpoint the other defaults to it; given neither
  endpoint the construction fails with ValueError.
\<close>

theorem Scene_init_ordered:
  "(Scene_init start_arg end_arg l = Inr sc \<longrightarrow>
      wrapper_le (WFrame (start sc)) (WFrame (end sc)) = Inr True)
   \<and> (Frame.value a > Frame.value b \<longrightarrow>
        Scene_init (Some a) (Some b) l = Inr \<lparr>start = b, end = a, label = l\<rparr>)
   \<and> Scene_init (Some \<lparr>Frame.value = 5\<rparr>) (Some \<lparr>Frame.value = 2\<rparr>) l
        = Inr \<lparr>start = \<lparr>Frame.value = 2\<rparr>, end = \<lparr>Frame.value = 5\<rparr>, label = l\<rparr>
   \<and> Scene_init (Some a) None l = Inr \<lparr>start = a, end = a, label = l\<rparr>
   \<and> Scene_init None (Some b) l = Inr \<lparr>start = b, end = b, label = l\<rparr>
   \<and> Scene_init None None l = Inl ValueError"
proof (intro conjI impI)
  assume "Scene_init start_arg end_arg l = Inr sc"
  then show "wrapper_le (WFrame (start sc)) (WFrame (end sc)) = Inr True"
    by (cases start_arg; cases end_arg)
       (auto simp: Scene_init_def wrapper_gt_def wrapper_le_def split: if_splits)
next
  assume "Frame.value a > Frame.value b"
  then show "Scene_init (Some a) (Some b) l = Inr \<lparr>start = b, end = a, label = l\<rparr>"
    by (simp add: Scene_init_def wrapper_gt_def)
qed (simp_all add: Scene_init_def wrapper_gt_def)

theorem Scene_init_ordered_witness:
  "Scene_init (Some \<lparr>Frame.value = 9\<rparr>) (Some \<lparr>Frame.value = 4\<rparr>) ''x''
     = Inr \<lparr>start = \<lparr>Frame.value = 4\<rparr>, end = \<lparr>Frame.value = 9\<rparr>, label = ''x''\<rparr>
   \<and> wrapper_le (WFrame \<lparr>Frame.value = 4\<rparr>) (WFrame \<lparr>Frame.value = 9\<rparr>) = Inr True"
proof -
  let ?a = "\<lparr>Frame.value = 9\<rparr>" and ?b = "\<lparr>Frame.value = 4\<rparr>"
  let ?sc = "\<lparr>start = ?b, end = ?a, label = ''x''\<rparr>"
  note T = Scene_init_ordered [of "Some ?a" "Some ?b" "''x''" ?sc ?b ?a]
  have gt: "Frame.value ?a > Frame.value ?b" by simp
  from T gt have eq: "Scene_init (Some ?a) (Some ?b) ''x'' = Inr ?sc" by blast
  with T have "wrapper_le (WFrame (start ?sc)) (WFrame (end ?sc)) = Inr True" by blast
  with eq show ?thesis by simp
qed

subsection \<open>Deserialising a Scene\<close>





subsection \<open>Seconds to frames: floor for audio, round for video\<close>













subsection \<open>Conversions when fps is zero\<close>





subsection \<open>Loading the persisted attributes of an Output\<close>
















end
